theory Spec2Isabelle
  imports Main "HOL-Library.Char_ord" "HOL-Library.Word"
begin

unbundle bit_operations_syntax

section \<open>Package database: accounts and transactions\<close>

text \<open>
  A shallow embedding of the Go package \<^verbatim>\<open>database\<close>: the account identifier codec
  (\<^verbatim>\<open>ToAccountID\<close>, \<^verbatim>\<open>PublicKeyToAccountID\<close>, \<^verbatim>\<open>IsAccountID\<close> and their helpers) and the
  transaction model (\<^verbatim>\<open>NewTx\<close>, \<^verbatim>\<open>Tx.Sign\<close>, \<^verbatim>\<open>SignedTx.Validate\<close>).

  A Go \<^verbatim>\<open>string\<close> is a sequence of bytes; \<^typ>\<open>string\<close> is a list of 8-bit characters, and
  \<^const>\<open>length\<close> counts bytes as Go's \<^verbatim>\<open>len\<close> does. Go's \<^verbatim>\<open>==\<close> on strings is equality of
  the byte sequences, which is HOL's equality on \<^typ>\<open>string\<close>. A function returning
  \<^verbatim>\<open>(T, error)\<close> returns a pair whose second component is \<^term>\<open>None\<close> for \<^verbatim>\<open>nil\<close>.
\<close>

subsection \<open>Errors\<close>

text \<open>
  One constructor for each place where the package creates an error, and one for the errors
  that the package \<^verbatim>\<open>signature\<close> hands back, which this package passes on unchanged.
\<close>

datatype error =
    InvalidAccountFormat                 \<comment> \<open>\<^verbatim>\<open>invalid account format\<close>\<close>
  | FromNotFormatted                     \<comment> \<open>\<^verbatim>\<open>from account is not properly formatted\<close>\<close>
  | ToNotFormatted                       \<comment> \<open>\<^verbatim>\<open>to account is not properly formatted\<close>\<close>
  | InvalidChainID "16 word" "16 word"   \<comment> \<open>\<^verbatim>\<open>invalid chain id, got[%d] exp[%d]\<close>\<close>
  | SelfTransfer string string           \<comment> \<open>\<^verbatim>\<open>transaction invalid, sending money to yourself, from %s, to %s\<close>\<close>
  | AddressMismatch                      \<comment> \<open>\<^verbatim>\<open>signature address doesn't match from address\<close>\<close>
  | SignatureError string                \<comment> \<open>an error made by the package \<^verbatim>\<open>signature\<close>\<close>

text \<open>Run-time panics of indexing and slicing a string.\<close>

datatype panic =
    IndexOutOfRange nat nat              \<comment> \<open>index, length\<close>
  | SliceBoundsOutOfRange nat nat        \<comment> \<open>lower bound, length\<close>

subsection \<open>Account identifiers\<close>

type_synonym AccountID = string

definition addressLength :: nat where
  "addressLength = 20"

definition isHexCharacter :: "char \<Rightarrow> bool" where
  "isHexCharacter c =
     ((CHR ''0'' \<le> c \<and> c \<le> CHR ''9'') \<or>
      (CHR ''a'' \<le> c \<and> c \<le> CHR ''f'') \<or>
      (CHR ''A'' \<le> c \<and> c \<le> CHR ''F''))"

text \<open>The \<^verbatim>\<open>range\<close> loop of \<^verbatim>\<open>isHex\<close>: it returns at the first byte that is no hex digit.\<close>

fun isHex_loop :: "char list \<Rightarrow> bool" where
  "isHex_loop [] = True"
| "isHex_loop (c # cs) = (if \<not> isHexCharacter c then False else isHex_loop cs)"

definition isHex :: "AccountID \<Rightarrow> bool" where
  "isHex a = (if length a mod 2 \<noteq> 0 then False else isHex_loop a)"

definition has0xPrefix :: "AccountID \<Rightarrow> bool" where
  "has0xPrefix a =
     (length a \<ge> 2 \<and> a ! 0 = CHR ''0'' \<and> (a ! 1 = CHR ''x'' \<or> a ! 1 = CHR ''X''))"

definition IsAccountID :: "AccountID \<Rightarrow> bool" where
  "IsAccountID a =
     (let a' = (if has0xPrefix a then drop 2 a else a)
      in length a' = 2 * addressLength \<and> isHex a')"

definition ToAccountID :: "string \<Rightarrow> AccountID \<times> error option" where
  "ToAccountID hex =
     (let a = hex
      in if \<not> IsAccountID a then ('''', Some InvalidAccountFormat) else (a, None))"

text \<open>
  Modelled from the spec: the type \<^verbatim>\<open>common.Address\<close> of the go-ethereum library, which is
  not under \<^verbatim>\<open>src/\<close>. By section 3 of the specification the value behind an \<^verbatim>\<open>AccountID\<close>
  is a value of 20 bytes.
\<close>

typedef Address = "{bs :: 8 word list. length bs = 20}"
  by (rule exI [of _ "replicate 20 0"]) simp

text \<open>
  Modelled from the spec: the hexadecimal digit for a value below 16, as the library writes
  it. The specification leaves the case of the letters open, so the case is an argument.
\<close>

definition hexDigit :: "bool \<Rightarrow> nat \<Rightarrow> char" where
  "hexDigit upper n =
     (if upper then ''0123456789ABCDEF'' ! n else ''0123456789abcdef'' ! n)"

text \<open>
  Modelled from the spec: the rendering of bytes as hexadecimal digits, two for each byte and
  the high half first; \<open>upperAt i\<close> tells whether the digit at position \<open>i\<close> is written in
  upper case.
\<close>

fun hexEncode :: "(nat \<Rightarrow> bool) \<Rightarrow> nat \<Rightarrow> 8 word list \<Rightarrow> string" where
  "hexEncode upperAt i [] = []"
| "hexEncode upperAt i (b # bs) =
     hexDigit (upperAt i) (unat (drop_bit 4 b)) #
     hexDigit (upperAt (i + 1)) (unat (b AND 15)) #
     hexEncode upperAt (i + 2) bs"

text \<open>
  Modelled from the spec: \<^verbatim>\<open>Address.String\<close> of the go-ethereum library, which is not under
  \<^verbatim>\<open>src/\<close>. By section 3 of the specification the 20 bytes are rendered as \<^verbatim>\<open>0x\<close> followed
  by 40 hexadecimal characters, in either case. The choice of the case of each letter for
  an address is the parameter \<open>upperAt\<close>.
\<close>

definition Address_String :: "(Address \<Rightarrow> nat \<Rightarrow> bool) \<Rightarrow> Address \<Rightarrow> string" where
  "Address_String upperAt a = ''0x'' @ hexEncode (upperAt a) 0 (Rep_Address a)"

text \<open>
  \<^verbatim>\<open>PublicKeyToAccountID\<close> returns \<^verbatim>\<open>crypto.PubkeyToAddress(pk).String()\<close>, converted to an
  \<^verbatim>\<open>AccountID\<close>. The derivation of the address from the key, \<^verbatim>\<open>crypto.PubkeyToAddress\<close>, is
  the parameter \<open>pubkeyToAddress\<close>; it is \<^term>\<open>None\<close> on a key for which the library panics,
  and then \<^verbatim>\<open>PublicKeyToAccountID\<close> returns nothing.
\<close>

definition PublicKeyToAccountID ::
  "('pk \<Rightarrow> Address option) \<Rightarrow> (Address \<Rightarrow> nat \<Rightarrow> bool) \<Rightarrow> 'pk \<Rightarrow> AccountID option" where
  "PublicKeyToAccountID pubkeyToAddress upperAt pk =
     (case pubkeyToAddress pk of
        None \<Rightarrow> None
      | Some a \<Rightarrow> Some (Address_String upperAt a))"

subsection \<open>Indexing and slicing with the bounds checks of the Go run time\<close>

text \<open>
  \<^verbatim>\<open>a[i]\<close> panics unless \<^verbatim>\<open>i < len(a)\<close>, and \<^verbatim>\<open>a[i:]\<close> panics unless \<^verbatim>\<open>i <= len(a)\<close>.
  The functions below are \<^verbatim>\<open>has0xPrefix\<close> and \<^verbatim>\<open>IsAccountID\<close> once more, with every index
  and slice expression going through these checks, and with \<^verbatim>\<open>&&\<close> and \<^verbatim>\<open>||\<close> evaluating
  their right operand only when the left one does not decide the result.
\<close>

definition index :: "string \<Rightarrow> nat \<Rightarrow> panic + char" where
  "index a i = (if i < length a then Inr (a ! i) else Inl (IndexOutOfRange i (length a)))"

definition slice_from :: "string \<Rightarrow> nat \<Rightarrow> panic + string" where
  "slice_from a i =
     (if i \<le> length a then Inr (drop i a) else Inl (SliceBoundsOutOfRange i (length a)))"

definition has0xPrefix_checked :: "AccountID \<Rightarrow> panic + bool" where
  "has0xPrefix_checked a =
     (if \<not> length a \<ge> 2 then Inr False
      else case index a 0 of
        Inl p \<Rightarrow> Inl p
      | Inr c0 \<Rightarrow>
          if \<not> c0 = CHR ''0'' then Inr False
          else (case index a 1 of
            Inl p \<Rightarrow> Inl p
          | Inr c1 \<Rightarrow>
              if c1 = CHR ''x'' then Inr True
              else (case index a 1 of
                Inl p \<Rightarrow> Inl p
              | Inr c1' \<Rightarrow> Inr (c1' = CHR ''X''))))"

definition IsAccountID_checked :: "AccountID \<Rightarrow> panic + bool" where
  "IsAccountID_checked a =
     (case has0xPrefix_checked a of
        Inl p \<Rightarrow> Inl p
      | Inr b \<Rightarrow>
          (case (if b then slice_from a 2 else Inr a) of
             Inl p \<Rightarrow> Inl p
           | Inr a' \<Rightarrow> Inr (length a' = 2 * addressLength \<and> isHex a')))"

subsection \<open>Transactions\<close>

text \<open>
  \<^verbatim>\<open>uint16\<close> and \<^verbatim>\<open>uint64\<close> are words, \<^verbatim>\<open>[]byte\<close> is a list of bytes, and \<^verbatim>\<open>*big.Int\<close> is an
  integer or \<^verbatim>\<open>nil\<close>.
\<close>

type_synonym bigInt = "int option"

record Tx =
  ChainID :: "16 word"
  Nonce :: "64 word"
  FromID :: AccountID
  ToID :: AccountID
  Value :: "64 word"
  Tip :: "64 word"
  Data :: "8 word list"

text \<open>\<^verbatim>\<open>SignedTx\<close> embeds a \<^verbatim>\<open>Tx\<close> by value, next to the three parts of the signature.\<close>

record SignedTx =
  Tx :: Tx
  V :: bigInt
  R :: bigInt
  S :: bigInt

definition zero_Tx :: Tx where
  "zero_Tx = \<lparr>ChainID = 0, Nonce = 0, FromID = '''', ToID = '''', Value = 0, Tip = 0, Data = []\<rparr>"

definition zero_SignedTx :: SignedTx where
  "zero_SignedTx = \<lparr>Tx = zero_Tx, V = None, R = None, S = None\<rparr>"

text \<open>
  The functions of the package \<^verbatim>\<open>signature\<close> that this package calls. They are parameters of
  the model: \<^verbatim>\<open>signature.Sign\<close>, \<^verbatim>\<open>signature.VerifySignature\<close> and \<^verbatim>\<open>signature.FromAddress\<close>,
  over any type \<^typ>\<open>'k\<close> of private keys.
\<close>

record 'k signature =
  signature_Sign :: "Tx \<Rightarrow> 'k \<Rightarrow> bigInt \<times> bigInt \<times> bigInt \<times> error option"
  signature_VerifySignature :: "bigInt \<Rightarrow> bigInt \<Rightarrow> bigInt \<Rightarrow> error option"
  signature_FromAddress :: "Tx \<Rightarrow> bigInt \<Rightarrow> bigInt \<Rightarrow> bigInt \<Rightarrow> string \<times> error option"

definition NewTx ::
  "16 word \<Rightarrow> 64 word \<Rightarrow> AccountID \<Rightarrow> AccountID \<Rightarrow> 64 word \<Rightarrow> 64 word \<Rightarrow> 8 word list
     \<Rightarrow> Tx \<times> error option" where
  "NewTx chainID nonce fromID toID val tip dat =
     (if \<not> IsAccountID fromID then (zero_Tx, Some FromNotFormatted)
      else if \<not> IsAccountID toID then (zero_Tx, Some ToNotFormatted)
      else (\<lparr>ChainID = chainID, Nonce = nonce, FromID = fromID, ToID = toID,
              Value = val, Tip = tip, Data = dat\<rparr>, None))"

definition Sign :: "'k signature \<Rightarrow> Tx \<Rightarrow> 'k \<Rightarrow> SignedTx \<times> error option" where
  "Sign sg tx privateKey =
     (case signature_Sign sg tx privateKey of
        (v, r, s, Some err) \<Rightarrow> (zero_SignedTx, Some err)
      | (v, r, s, None) \<Rightarrow> (\<lparr>Tx = tx, V = v, R = r, S = s\<rparr>, None))"

definition Validate :: "'k signature \<Rightarrow> SignedTx \<Rightarrow> 16 word \<Rightarrow> error option" where
  "Validate sg tx chainID =
     (if ChainID (Tx tx) \<noteq> chainID then Some (InvalidChainID (ChainID (Tx tx)) chainID)
      else if \<not> IsAccountID (FromID (Tx tx)) then Some FromNotFormatted
      else if \<not> IsAccountID (ToID (Tx tx)) then Some ToNotFormatted
      else if FromID (Tx tx) = ToID (Tx tx)
        then Some (SelfTransfer (FromID (Tx tx)) (ToID (Tx tx)))
      else (case signature_VerifySignature sg (V tx) (R tx) (S tx) of
              Some err \<Rightarrow> Some err
            | None \<Rightarrow>
                (case signature_FromAddress sg (Tx tx) (V tx) (R tx) (S tx) of
                   (address, Some err) \<Rightarrow> Some err
                 | (address, None) \<Rightarrow>
                     if address \<noteq> FromID (Tx tx) then Some AddressMismatch else None)))"

subsection \<open>Formats of identifiers, as predicates\<close>

text \<open>
  Two descriptions of a well-formed identifier, to compare \<^const>\<open>IsAccountID\<close> with:
  \<^verbatim>\<open>0x\<close> followed by exactly 40 hexadecimal digits, and exactly 40 hexadecimal digits after
  an optional \<^verbatim>\<open>0x\<close> or \<^verbatim>\<open>0X\<close>.
\<close>

definition is_0x_40hex :: "string \<Rightarrow> bool" where
  "is_0x_40hex s =
     (length s = 42 \<and> take 2 s = ''0x'' \<and> list_all isHexCharacter (drop 2 s))"

definition is_40hex_optional_prefix :: "string \<Rightarrow> bool" where
  "is_40hex_optional_prefix s =
     ((length s = 40 \<and> list_all isHexCharacter s) \<or>
      (length s = 42 \<and> (take 2 s = ''0x'' \<or> take 2 s = ''0X'') \<and>
       list_all isHexCharacter (drop 2 s)))"

subsection \<open>Sample values\<close>

text \<open>
  Identifiers and a stand-in for the package \<^verbatim>\<open>signature\<close>, at which the theorems below are
  instantiated. The stand-in takes a number for a private key: it refuses the key 0, accepts
  the recovery identifiers 29 and 30, fails to recover an address when \<^verbatim>\<open>R\<close> is \<^verbatim>\<open>nil\<close>, and
  recovers \<open>addr_lower\<close> when \<^verbatim>\<open>R\<close> is 1 and \<open>addr_upper\<close> otherwise. The sample transaction
  sends from \<open>addr_lower\<close> to \<open>addr_other\<close> on chain 1, and its signed form carries the
  signature for which the stand-in recovers the sender. The sample address is 20 bytes
  \<^verbatim>\<open>0xAA\<close>, and the stand-in for \<^verbatim>\<open>crypto.PubkeyToAddress\<close> derives it from every key but 0,
  where it panics.
\<close>

definition addr_lower :: AccountID where
  "addr_lower = ''0xaaaaaaaaaaaaaaaaaaaaaaaaaaaaaaaaaaaaaaaa''"

definition addr_upper :: AccountID where
  "addr_upper = ''0xAAAAAAAAAAAAAAAAAAAAAAAAAAAAAAAAAAAAAAAA''"

definition addr_bare :: AccountID where
  "addr_bare = ''aaaaaaaaaaaaaaaaaaaaaaaaaaaaaaaaaaaaaaaa''"

definition addr_other :: AccountID where
  "addr_other = ''0xbbbbbbbbbbbbbbbbbbbbbbbbbbbbbbbbbbbbbbbb''"

definition sample_Address :: Address where
  "sample_Address = Abs_Address
     [0xAA, 0xAA, 0xAA, 0xAA, 0xAA, 0xAA, 0xAA, 0xAA, 0xAA, 0xAA,
      0xAA, 0xAA, 0xAA, 0xAA, 0xAA, 0xAA, 0xAA, 0xAA, 0xAA, 0xAA]"

definition stub_PubkeyToAddress :: "nat \<Rightarrow> Address option" where
  "stub_PubkeyToAddress pk = (if pk = 0 then None else Some sample_Address)"

definition stub_signature :: "nat signature" where
  "stub_signature =
     \<lparr>signature_Sign = (\<lambda>tx k.
        if k = 0 then (None, None, None, Some (SignatureError ''invalid private key''))
        else (Some 29, Some (int k), Some 1, None)),
      signature_VerifySignature = (\<lambda>v r s.
        if v = Some 29 \<or> v = Some 30 then None
        else Some (SignatureError ''invalid recovery id'')),
      signature_FromAddress = (\<lambda>tx v r s.
        case r of
          None \<Rightarrow> ('''', Some (SignatureError ''recovery failed''))
        | Some n \<Rightarrow> (if n = 1 then addr_lower else addr_upper, None))\<rparr>"

definition sample_Tx :: Tx where
  "sample_Tx =
     \<lparr>ChainID = 1, Nonce = 0, FromID = addr_lower, ToID = addr_other,
      Value = 100, Tip = 1, Data = []\<rparr>"

definition sample_SignedTx :: SignedTx where
  "sample_SignedTx = \<lparr>Tx = sample_Tx, V = Some 29, R = Some 1, S = Some 1\<rparr>"

section \<open>Properties\<close>

subsection \<open>Helper lemmas\<close>

lemma isHex_loop_list_all: "isHex_loop cs = list_all isHexCharacter cs"
  by (induction cs) simp_all

lemma has0xPrefix_checked_eq: "has0xPrefix_checked a = Inr (has0xPrefix a)"
  by (auto simp: has0xPrefix_checked_def has0xPrefix_def index_def)

lemma has0xPrefix_length: "has0xPrefix a \<Longrightarrow> 2 \<le> length a"
  by (simp add: has0xPrefix_def)

lemma IsAccountID_checked_eq: "IsAccountID_checked a = Inr (IsAccountID a)"
  by (auto simp: IsAccountID_checked_def IsAccountID_def has0xPrefix_checked_eq slice_from_def
      dest: has0xPrefix_length)

lemma has0xPrefix_take:
  "has0xPrefix a \<longleftrightarrow> (2 \<le> length a \<and> (take 2 a = ''0x'' \<or> take 2 a = ''0X''))"
proof (cases a)
  case Nil
  then show ?thesis by (simp add: has0xPrefix_def)
next
  case (Cons c cs)
  then show ?thesis
    by (cases cs) (auto simp: has0xPrefix_def)
qed

lemma not_hex_x: "\<not> isHexCharacter (CHR ''x'')" "\<not> isHexCharacter (CHR ''X'')"
  by (simp_all add: isHexCharacter_def)

lemma hex_no_prefix: "list_all isHexCharacter a \<Longrightarrow> \<not> has0xPrefix a"
proof (cases a)
  case Nil
  then show ?thesis by (simp add: has0xPrefix_def)
next
  case (Cons c cs)
  assume "list_all isHexCharacter a"
  with Cons show ?thesis
    by (cases cs) (auto simp: has0xPrefix_def not_hex_x)
qed

lemma isHex_40: "length a = 40 \<Longrightarrow> isHex a = list_all isHexCharacter a"
  by (simp add: isHex_def isHex_loop_list_all)

text \<open>
  What \<^const>\<open>IsAccountID\<close> accepts: 40 hexadecimal digits, with or without a prefix
  \<^verbatim>\<open>0x\<close> or \<^verbatim>\<open>0X\<close> in front.
\<close>

lemma IsAccountID_iff: "IsAccountID a \<longleftrightarrow> is_40hex_optional_prefix a"
proof (cases "has0xPrefix a")
  case True
  then have t: "2 \<le> length a" "take 2 a = ''0x'' \<or> take 2 a = ''0X''"
    by (simp_all add: has0xPrefix_take)
  have nh: "\<not> list_all isHexCharacter a"
    using True hex_no_prefix by blast
  have "IsAccountID a \<longleftrightarrow> length (drop 2 a) = 40 \<and> isHex (drop 2 a)"
    using True by (simp add: IsAccountID_def addressLength_def)
  also have "\<dots> \<longleftrightarrow> length a = 42 \<and> list_all isHexCharacter (drop 2 a)"
    using t(1) by (auto simp: isHex_40)
  also have "\<dots> \<longleftrightarrow> is_40hex_optional_prefix a"
    using t(2) nh by (auto simp: is_40hex_optional_prefix_def)
  finally show ?thesis .
next
  case False
  then have nt: "\<not> (2 \<le> length a \<and> (take 2 a = ''0x'' \<or> take 2 a = ''0X''))"
    by (simp add: has0xPrefix_take)
  have "IsAccountID a \<longleftrightarrow> length a = 40 \<and> isHex a"
    using False by (simp add: IsAccountID_def addressLength_def)
  also have "\<dots> \<longleftrightarrow> length a = 40 \<and> list_all isHexCharacter a"
    by (auto simp: isHex_40)
  also have "\<dots> \<longleftrightarrow> is_40hex_optional_prefix a"
    using nt by (auto simp: is_40hex_optional_prefix_def)
  finally show ?thesis .
qed

lemma ToAccountID_accept: "IsAccountID s \<Longrightarrow> ToAccountID s = (s, None)"
  by (simp add: ToAccountID_def)

lemma ToAccountID_reject: "\<not> IsAccountID s \<Longrightarrow> ToAccountID s = ('''', Some InvalidAccountFormat)"
  by (simp add: ToAccountID_def)

lemma is_0x_40hex_optional: "is_0x_40hex s \<Longrightarrow> is_40hex_optional_prefix s"
  by (simp add: is_0x_40hex_def is_40hex_optional_prefix_def)

text \<open>The sample identifiers, evaluated.\<close>

lemma IsAccountID_addr_lower: "IsAccountID addr_lower"
  by (simp add: addr_lower_def IsAccountID_def Let_def has0xPrefix_def isHex_def
      isHexCharacter_def addressLength_def)

lemma IsAccountID_addr_upper: "IsAccountID addr_upper"
  by (simp add: addr_upper_def IsAccountID_def Let_def has0xPrefix_def isHex_def
      isHexCharacter_def addressLength_def)

lemma IsAccountID_addr_bare: "IsAccountID addr_bare"
  by (simp add: addr_bare_def IsAccountID_def Let_def has0xPrefix_def isHex_def
      isHexCharacter_def addressLength_def)

lemma IsAccountID_addr_other: "IsAccountID addr_other"
  by (simp add: addr_other_def IsAccountID_def Let_def has0xPrefix_def isHex_def
      isHexCharacter_def addressLength_def)

lemma not_IsAccountID_short: "\<not> IsAccountID ''0x1234''"
  by (simp add: IsAccountID_def Let_def has0xPrefix_def isHex_def addressLength_def)

lemma not_IsAccountID_empty: "\<not> IsAccountID ''''"
  by (simp add: IsAccountID_def Let_def has0xPrefix_def isHex_def addressLength_def)

lemma addr_distinct:
  "addr_lower \<noteq> addr_upper" "addr_lower \<noteq> addr_bare" "addr_upper \<noteq> addr_bare"
  "addr_lower \<noteq> addr_other" "addr_upper \<noteq> addr_other"
  by (simp_all add: addr_lower_def addr_upper_def addr_bare_def addr_other_def)

text \<open>The rendering of an address: 40 hexadecimal digits behind \<^verbatim>\<open>0x\<close>.\<close>

lemma hexDigit_all:
  "list_all (\<lambda>n. isHexCharacter (hexDigit True n) \<and> isHexCharacter (hexDigit False n)) [0..<16]"
  by code_simp

lemma hexDigit_hex: "n < 16 \<Longrightarrow> isHexCharacter (hexDigit upper n)"
  using hexDigit_all by (cases upper) (auto simp: list_all_iff)

lemma high_nibble: "unat (drop_bit 4 (b :: 8 word)) < 16"
proof -
  have "unat b < 256"
    using unsigned_less [of b, where ?'a = nat] by simp
  moreover have "unat (drop_bit 4 b) = drop_bit 4 (unat b)"
    by (rule unat_drop_bit_eq)
  moreover have "drop_bit 4 (unat b) = unat b div 16"
    by (simp add: drop_bit_eq_div)
  ultimately show ?thesis by simp
qed

lemma mask_4: "(15 :: 8 word) = mask 4"
  by (simp add: mask_eq_exp_minus_1)

lemma low_nibble: "unat ((b :: 8 word) AND 15) < 16"
proof -
  have "b AND 15 = take_bit 4 b"
    by (simp add: mask_4 take_bit_eq_mask)
  then show ?thesis
    using take_bit_nat_less_exp [of 4 "unat b"] by (simp add: unsigned_take_bit_eq)
qed

lemma length_hexEncode: "length (hexEncode upperAt i bs) = 2 * length bs"
  by (induction bs arbitrary: i) simp_all

lemma hexEncode_hex: "list_all isHexCharacter (hexEncode upperAt i bs)"
  by (induction bs arbitrary: i) (simp_all add: hexDigit_hex high_nibble low_nibble)

lemma length_Rep_Address: "length (Rep_Address a) = 20"
  using Rep_Address [of a] by simp

lemma Address_String_format: "is_0x_40hex (Address_String upperAt a)"
  by (simp add: is_0x_40hex_def Address_String_def length_hexEncode hexEncode_hex
      length_Rep_Address)

lemma Address_String_sample: "Address_String (\<lambda>a i. False) sample_Address = addr_lower"
  by (simp add: sample_Address_def Address_String_def Abs_Address_inverse hexDigit_def
      addr_lower_def)

text \<open>The stand-in for the package \<^verbatim>\<open>signature\<close> and the sample transactions, evaluated.\<close>

lemma stub_simps:
  "signature_VerifySignature stub_signature v r s =
     (if v = Some 29 \<or> v = Some 30 then None else Some (SignatureError ''invalid recovery id''))"
  "signature_FromAddress stub_signature tx v r s =
     (case r of
        None \<Rightarrow> ('''', Some (SignatureError ''recovery failed''))
      | Some n \<Rightarrow> (if n = 1 then addr_lower else addr_upper, None))"
  by (simp_all add: stub_signature_def)

lemma sample_Tx_simps:
  "ChainID sample_Tx = 1" "FromID sample_Tx = addr_lower" "ToID sample_Tx = addr_other"
  by (simp_all add: sample_Tx_def)

lemma sample_SignedTx_simps:
  "Tx sample_SignedTx = sample_Tx" "V sample_SignedTx = Some 29"
  "R sample_SignedTx = Some 1" "S sample_SignedTx = Some 1"
  by (simp_all add: sample_SignedTx_def)

lemmas sample_simps = stub_simps sample_Tx_simps sample_SignedTx_simps
  IsAccountID_addr_lower IsAccountID_addr_other not_IsAccountID_short addr_distinct
  addr_distinct [symmetric]

subsection \<open>IsAccountID never panics\<close>

text \<open>
  C9. \<^verbatim>\<open>IsAccountID\<close> is total: on every string, of any length, it returns a boolean.
  With every index and slice expression checked against the length, neither
  \<^verbatim>\<open>has0xPrefix\<close> nor \<^verbatim>\<open>IsAccountID\<close> reaches a panic: characters 0 and 1 are only read
  behind the test \<^verbatim>\<open>len(a) >= 2\<close>, and \<^verbatim>\<open>a[2:]\<close> is only taken when the prefix is there.
  The checked functions return what the unchecked ones compute; on the empty string and
  on a string of one character the prefix test is false.
\<close>

theorem IsAccountID_total:
  "(\<exists>b. IsAccountID_checked a = Inr b) \<and> (\<exists>b. has0xPrefix_checked a = Inr b) \<and>
   IsAccountID_checked a = Inr (IsAccountID a) \<and>
   has0xPrefix_checked a = Inr (has0xPrefix a) \<and>
   IsAccountID_checked [] = Inr False \<and> has0xPrefix_checked [] = Inr False \<and>
   has0xPrefix_checked [c] = Inr False"
  by (simp add: IsAccountID_checked_eq has0xPrefix_checked_eq has0xPrefix_def IsAccountID_def
      addressLength_def)

subsection \<open>What ToAccountID accepts and returns\<close>

text \<open>
  C2 as stated fails. A string of 40 hexadecimal digits with no prefix does not match \<^verbatim>\<open>0x\<close> followed by 40
  hexadecimal digits, and \<^verbatim>\<open>ToAccountID\<close> accepts it: \<^verbatim>\<open>IsAccountID\<close> strips the prefix only
  when it is there.
\<close>

theorem ToAccountID_non_0x_counterexample:
  "\<not> is_0x_40hex ''0123456789abcdefABCDEF0123456789abcdefAB'' \<and>
   ToAccountID ''0123456789abcdefABCDEF0123456789abcdefAB'' =
     (''0123456789abcdefABCDEF0123456789abcdefAB'', None)"
  by (simp add: is_0x_40hex_def ToAccountID_def IsAccountID_def Let_def has0xPrefix_def
      isHex_def isHexCharacter_def addressLength_def)

text \<open>
  C2, amended. For every input string that is not exactly 40 hexadecimal digits after an
  optional prefix \<^verbatim>\<open>0x\<close> or \<^verbatim>\<open>0X\<close>, \<^verbatim>\<open>ToAccountID\<close> returns the empty identifier and the
  format error. The accepted strings that do not match \<^verbatim>\<open>0x\<close> followed by 40 hexadecimal
  digits are the 40 digits alone and the 40 digits after \<^verbatim>\<open>0X\<close>.
\<close>

theorem ToAccountID_rejects_malformed:
  "(\<not> is_40hex_optional_prefix s \<longrightarrow> ToAccountID s = ('''', Some InvalidAccountFormat)) \<and>
   (\<not> is_0x_40hex s \<and> snd (ToAccountID s) = None \<longrightarrow>
      (length s = 40 \<and> list_all isHexCharacter s) \<or>
      (length s = 42 \<and> take 2 s = ''0X'' \<and> list_all isHexCharacter (drop 2 s)))"
proof (intro conjI impI)
  assume "\<not> is_40hex_optional_prefix s"
  then show "ToAccountID s = ('''', Some InvalidAccountFormat)"
    by (simp add: ToAccountID_reject IsAccountID_iff)
next
  assume a: "\<not> is_0x_40hex s \<and> snd (ToAccountID s) = None"
  then have "IsAccountID s"
    by (auto simp: ToAccountID_def split: if_splits)
  then have "is_40hex_optional_prefix s"
    by (simp add: IsAccountID_iff)
  with a show "(length s = 40 \<and> list_all isHexCharacter s) \<or>
      (length s = 42 \<and> take 2 s = ''0X'' \<and> list_all isHexCharacter (drop 2 s))"
    by (auto simp: is_40hex_optional_prefix_def is_0x_40hex_def)
qed

theorem ToAccountID_rejects_malformed_witness:
  "\<not> is_40hex_optional_prefix ''0x1234'' \<and>
   ToAccountID ''0x1234'' = ('''', Some InvalidAccountFormat) \<and>
   \<not> is_0x_40hex (''0X'' @ addr_bare) \<and> snd (ToAccountID (''0X'' @ addr_bare)) = None \<and>
   length (''0X'' @ addr_bare) = 42 \<and> take 2 (''0X'' @ addr_bare) = ''0X'' \<and>
   list_all isHexCharacter (drop 2 (''0X'' @ addr_bare))"
proof -
  have h1: "\<not> is_40hex_optional_prefix ''0x1234''"
    by (simp add: is_40hex_optional_prefix_def)
  have h2: "\<not> is_0x_40hex (''0X'' @ addr_bare)"
    by (simp add: is_0x_40hex_def)
  have h3: "snd (ToAccountID (''0X'' @ addr_bare)) = None"
    by (simp add: addr_bare_def ToAccountID_def IsAccountID_def Let_def has0xPrefix_def
        isHex_def isHexCharacter_def addressLength_def)
  have h4: "length (''0X'' @ addr_bare) \<noteq> 40"
    by (simp add: addr_bare_def)
  from ToAccountID_rejects_malformed [of "''0x1234''"] h1
  have c1: "ToAccountID ''0x1234'' = ('''', Some InvalidAccountFormat)"
    by blast
  from ToAccountID_rejects_malformed [of "''0X'' @ addr_bare"] h2 h3 h4
  have c2: "length (''0X'' @ addr_bare) = 42 \<and> take 2 (''0X'' @ addr_bare) = ''0X'' \<and>
      list_all isHexCharacter (drop 2 (''0X'' @ addr_bare))"
    by blast
  from h1 h2 h3 c1 c2 show ?thesis by blast
qed

text \<open>
  C3 as stated fails. \<^verbatim>\<open>ToAccountID\<close> returns an accepted identifier of 40 characters: it is
  not empty, and it is not 42 characters long.
\<close>

theorem AccountID_format_counterexample:
  "IsAccountID ''00000000000000000000000000000000000000ff'' \<and>
   fst (ToAccountID ''00000000000000000000000000000000000000ff'') \<noteq> '''' \<and>
   length (fst (ToAccountID ''00000000000000000000000000000000000000ff'')) \<noteq> 42"
  by (simp add: ToAccountID_def IsAccountID_def Let_def has0xPrefix_def
      isHex_def isHexCharacter_def addressLength_def)

text \<open>
  C3, amended. The identifier returned by \<^verbatim>\<open>ToAccountID\<close> is empty when it fails and,
  when it succeeds, exactly 40 hexadecimal digits after an optional prefix \<^verbatim>\<open>0x\<close> or
  \<^verbatim>\<open>0X\<close>; so is every string that \<^verbatim>\<open>IsAccountID\<close> accepts, which is therefore 40 or 42
  characters long. Every identifier returned by \<^verbatim>\<open>PublicKeyToAccountID\<close> is exactly 42
  characters long, the prefix \<^verbatim>\<open>0x\<close> followed by 40 hexadecimal digits, and \<^verbatim>\<open>IsAccountID\<close>
  accepts it; \<^verbatim>\<open>PublicKeyToAccountID\<close> returns an identifier for every key from which the
  library derives an address.
\<close>

theorem AccountID_format:
  "(snd (ToAccountID s) \<noteq> None \<longrightarrow> fst (ToAccountID s) = '''') \<and>
   (snd (ToAccountID s) = None \<longrightarrow> is_40hex_optional_prefix (fst (ToAccountID s))) \<and>
   (IsAccountID a \<longrightarrow> is_40hex_optional_prefix a) \<and>
   (is_40hex_optional_prefix a \<longrightarrow> length a = 40 \<or> length a = 42) \<and>
   (PublicKeyToAccountID pubkeyToAddress upperAt pk = Some b \<longrightarrow>
      is_0x_40hex b \<and> length b = 42 \<and> take 2 b = ''0x'' \<and>
      list_all isHexCharacter (drop 2 b) \<and> IsAccountID b) \<and>
   (PublicKeyToAccountID pubkeyToAddress upperAt pk = None \<longleftrightarrow> pubkeyToAddress pk = None)"
proof -
  have 1: "snd (ToAccountID s) \<noteq> None \<longrightarrow> fst (ToAccountID s) = ''''"
    by (simp add: ToAccountID_def)
  have 2: "snd (ToAccountID s) = None \<longrightarrow> is_40hex_optional_prefix (fst (ToAccountID s))"
    by (auto simp: ToAccountID_def IsAccountID_iff)
  have 3: "IsAccountID a \<longrightarrow> is_40hex_optional_prefix a"
    by (simp add: IsAccountID_iff)
  have 4: "is_40hex_optional_prefix a \<longrightarrow> length a = 40 \<or> length a = 42"
    by (auto simp: is_40hex_optional_prefix_def)
  have 5: "PublicKeyToAccountID pubkeyToAddress upperAt pk = Some b \<longrightarrow>
      is_0x_40hex b \<and> length b = 42 \<and> take 2 b = ''0x'' \<and>
      list_all isHexCharacter (drop 2 b) \<and> IsAccountID b"
  proof
    assume "PublicKeyToAccountID pubkeyToAddress upperAt pk = Some b"
    then obtain addr where "b = Address_String upperAt addr"
      by (auto simp: PublicKeyToAccountID_def split: option.splits)
    then have f: "is_0x_40hex b"
      by (simp add: Address_String_format)
    then have "IsAccountID b"
      by (simp add: IsAccountID_iff is_0x_40hex_optional)
    with f show "is_0x_40hex b \<and> length b = 42 \<and> take 2 b = ''0x'' \<and>
      list_all isHexCharacter (drop 2 b) \<and> IsAccountID b"
      by (simp add: is_0x_40hex_def)
  qed
  have 6: "PublicKeyToAccountID pubkeyToAddress upperAt pk = None \<longleftrightarrow> pubkeyToAddress pk = None"
    by (simp add: PublicKeyToAccountID_def split: option.splits)
  show ?thesis
    by (intro conjI) (rule 1 2 3 4 5 6)+
qed

theorem AccountID_format_witness:
  "snd (ToAccountID ''0x1234'') \<noteq> None \<and> fst (ToAccountID ''0x1234'') = '''' \<and>
   snd (ToAccountID addr_upper) = None \<and> is_40hex_optional_prefix (fst (ToAccountID addr_upper)) \<and>
   IsAccountID addr_bare \<and> is_40hex_optional_prefix addr_bare \<and>
   (length addr_bare = 40 \<or> length addr_bare = 42) \<and>
   PublicKeyToAccountID stub_PubkeyToAddress (\<lambda>a i. False) 7 = Some addr_lower \<and>
   is_0x_40hex addr_lower \<and> length addr_lower = 42 \<and> IsAccountID addr_lower \<and>
   PublicKeyToAccountID stub_PubkeyToAddress (\<lambda>a i. False) 0 = None"
proof -
  have h1: "snd (ToAccountID ''0x1234'') \<noteq> None"
    by (simp add: ToAccountID_def not_IsAccountID_short)
  have h2: "snd (ToAccountID addr_upper) = None"
    by (simp add: ToAccountID_def IsAccountID_addr_upper)
  have h3: "IsAccountID addr_bare"
    by (rule IsAccountID_addr_bare)
  have h4: "PublicKeyToAccountID stub_PubkeyToAddress (\<lambda>a i. False) 7 = Some addr_lower"
    by (simp add: PublicKeyToAccountID_def stub_PubkeyToAddress_def Address_String_sample)
  have h5: "stub_PubkeyToAddress 0 = None"
    by (simp add: stub_PubkeyToAddress_def)
  note t1 = AccountID_format [of "''0x1234''" addr_bare stub_PubkeyToAddress "\<lambda>a i. False" 7
      addr_lower]
  note t2 = AccountID_format [of addr_upper addr_bare stub_PubkeyToAddress "\<lambda>a i. False" 0
      addr_lower]
  from h1 t1 have c1: "fst (ToAccountID ''0x1234'') = ''''"
    by blast
  from h2 t2 have c2: "is_40hex_optional_prefix (fst (ToAccountID addr_upper))"
    by blast
  from h3 t2 have c3: "is_40hex_optional_prefix addr_bare"
    by blast
  from c3 t2 have c4: "length addr_bare = 40 \<or> length addr_bare = 42"
    by blast
  from h4 t1 have c5: "is_0x_40hex addr_lower \<and> length addr_lower = 42 \<and> IsAccountID addr_lower"
    by blast
  from h5 t2 have c6: "PublicKeyToAccountID stub_PubkeyToAddress (\<lambda>a i. False) 0 = None"
    by blast
  from h1 h2 h3 h4 c1 c2 c3 c4 c5 c6 show ?thesis
    by blast
qed

text \<open>
  C4 as stated fails. \<^verbatim>\<open>ToAccountID\<close> fails on the empty string: its length is not 40.
\<close>

theorem ToAccountID_empty_counterexample:
  "ToAccountID '''' = ('''', Some InvalidAccountFormat)"
  by (simp add: ToAccountID_def IsAccountID_def Let_def has0xPrefix_def isHex_def addressLength_def)

text \<open>
  C4, amended. \<^verbatim>\<open>ToAccountID\<close> succeeds exactly on the strings that are 40 hexadecimal
  digits after an optional prefix \<^verbatim>\<open>0x\<close> or \<^verbatim>\<open>0X\<close>, and fails with the format error on
  every other string, the empty string among them. In particular it succeeds on a string of
  42 characters made of \<^verbatim>\<open>0x\<close> and 40 hexadecimal digits, and on 40 hexadecimal digits with
  no prefix, with \<^verbatim>\<open>0x\<close> or with \<^verbatim>\<open>0X\<close>.
\<close>

theorem ToAccountID_succeeds_iff:
  "(snd (ToAccountID s) = None \<longleftrightarrow> is_40hex_optional_prefix s) \<and>
   (snd (ToAccountID s) \<noteq> None \<longleftrightarrow> snd (ToAccountID s) = Some InvalidAccountFormat) \<and>
   snd (ToAccountID '''') = Some InvalidAccountFormat \<and>
   (is_0x_40hex s \<longrightarrow> snd (ToAccountID s) = None) \<and>
   (length h = 40 \<and> list_all isHexCharacter h \<longrightarrow>
      snd (ToAccountID h) = None \<and> snd (ToAccountID (''0x'' @ h)) = None \<and>
      snd (ToAccountID (''0X'' @ h)) = None)"
proof -
  have 1: "snd (ToAccountID s) = None \<longleftrightarrow> is_40hex_optional_prefix s" for s
    by (simp add: ToAccountID_def IsAccountID_iff)
  have 2: "snd (ToAccountID s) \<noteq> None \<longleftrightarrow> snd (ToAccountID s) = Some InvalidAccountFormat"
    by (simp add: ToAccountID_def)
  have 3: "snd (ToAccountID '''') = Some InvalidAccountFormat"
    by (simp add: ToAccountID_def not_IsAccountID_empty)
  have 4: "is_0x_40hex s \<longrightarrow> snd (ToAccountID s) = None"
    by (simp add: 1 is_0x_40hex_optional)
  have 5: "length h = 40 \<and> list_all isHexCharacter h \<longrightarrow>
      snd (ToAccountID h) = None \<and> snd (ToAccountID (''0x'' @ h)) = None \<and>
      snd (ToAccountID (''0X'' @ h)) = None"
    by (simp add: 1 is_40hex_optional_prefix_def)
  from 1 [of s] 2 3 4 5 show ?thesis by blast
qed

theorem ToAccountID_succeeds_iff_witness:
  "is_0x_40hex addr_lower \<and> snd (ToAccountID addr_lower) = None \<and>
   is_40hex_optional_prefix addr_lower \<and>
   length addr_bare = 40 \<and> list_all isHexCharacter addr_bare \<and>
   snd (ToAccountID addr_bare) = None \<and> snd (ToAccountID (''0x'' @ addr_bare)) = None \<and>
   snd (ToAccountID (''0X'' @ addr_bare)) = None"
proof -
  have h1: "is_0x_40hex addr_lower"
    by (simp add: is_0x_40hex_def addr_lower_def isHexCharacter_def)
  have h2: "length addr_bare = 40 \<and> list_all isHexCharacter addr_bare"
    by (simp add: addr_bare_def isHexCharacter_def)
  from ToAccountID_succeeds_iff [of addr_lower addr_bare] h1
  have c1: "snd (ToAccountID addr_lower) = None" by blast
  from ToAccountID_succeeds_iff [of addr_lower addr_bare] c1
  have c2: "is_40hex_optional_prefix addr_lower" by blast
  from ToAccountID_succeeds_iff [of addr_lower addr_bare] h2
  have c3: "snd (ToAccountID addr_bare) = None \<and> snd (ToAccountID (''0x'' @ addr_bare)) = None \<and>
   snd (ToAccountID (''0X'' @ addr_bare)) = None" by blast
  from h1 h2 c1 c2 c3 show ?thesis by blast
qed

text \<open>
  C8. Parsing round-trips on valid identifiers: on every string that \<^verbatim>\<open>IsAccountID\<close>
  accepts, \<^verbatim>\<open>ToAccountID\<close> succeeds and returns that very string, which \<^verbatim>\<open>IsAccountID\<close>
  accepts again, so parsing the result once more changes nothing. Every string made of
  \<^verbatim>\<open>0x\<close> and 40 hexadecimal digits, the rendering of a value of 20 bytes, is such a string.
\<close>

theorem ToAccountID_roundtrip:
  "(IsAccountID s \<longrightarrow>
      ToAccountID s = (s, None) \<and> IsAccountID (fst (ToAccountID s)) \<and>
      ToAccountID (fst (ToAccountID s)) = ToAccountID s) \<and>
   (length h = 40 \<and> list_all isHexCharacter h \<longrightarrow>
      IsAccountID (''0x'' @ h) \<and> ToAccountID (''0x'' @ h) = (''0x'' @ h, None))"
proof (intro conjI impI)
  assume "IsAccountID s"
  then show "ToAccountID s = (s, None)" "IsAccountID (fst (ToAccountID s))"
    "ToAccountID (fst (ToAccountID s)) = ToAccountID s"
    by (simp_all add: ToAccountID_accept)
next
  assume "length h = 40 \<and> list_all isHexCharacter h"
  then show ok: "IsAccountID (''0x'' @ h)"
    by (simp add: IsAccountID_iff is_40hex_optional_prefix_def)
  then show "ToAccountID (''0x'' @ h) = (''0x'' @ h, None)"
    by (rule ToAccountID_accept)
qed

theorem ToAccountID_roundtrip_witness:
  "IsAccountID addr_upper \<and> ToAccountID addr_upper = (addr_upper, None) \<and>
   IsAccountID (fst (ToAccountID addr_upper)) \<and>
   length addr_bare = 40 \<and> list_all isHexCharacter addr_bare \<and>
   IsAccountID (''0x'' @ addr_bare) \<and> ToAccountID (''0x'' @ addr_bare) = (''0x'' @ addr_bare, None)"
proof -
  have h1: "IsAccountID addr_upper"
    by (rule IsAccountID_addr_upper)
  have h2: "length addr_bare = 40 \<and> list_all isHexCharacter addr_bare"
    by (simp add: addr_bare_def isHexCharacter_def)
  from ToAccountID_roundtrip [of addr_upper addr_bare] h1
  have c1: "ToAccountID addr_upper = (addr_upper, None) \<and> IsAccountID (fst (ToAccountID addr_upper))"
    by blast
  from ToAccountID_roundtrip [of addr_upper addr_bare] h2
  have c2: "IsAccountID (''0x'' @ addr_bare) \<and> ToAccountID (''0x'' @ addr_bare) = (''0x'' @ addr_bare, None)"
    by blast
  from h1 h2 c1 c2 show ?thesis by blast
qed

subsection \<open>Constructing and signing a transaction\<close>

text \<open>
  C6. \<^verbatim>\<open>NewTx\<close> fails with the error of the sender when \<open>fromID\<close> is not accepted by
  \<^verbatim>\<open>IsAccountID\<close>, and with the error of the recipient when \<open>fromID\<close> is accepted and \<open>toID\<close>
  is not; both times it returns the zero \<^verbatim>\<open>Tx\<close>. Otherwise it succeeds, and each of the
  seven fields of the \<^verbatim>\<open>Tx\<close> is the argument supplied for it. It does not compare \<open>fromID\<close>
  with \<open>toID\<close>: with one well-formed identifier for both it succeeds.
\<close>

theorem NewTx_spec:
  "(\<not> IsAccountID fromID \<longrightarrow>
      NewTx chainID nonce fromID toID val tip dat = (zero_Tx, Some FromNotFormatted)) \<and>
   (IsAccountID fromID \<and> \<not> IsAccountID toID \<longrightarrow>
      NewTx chainID nonce fromID toID val tip dat = (zero_Tx, Some ToNotFormatted)) \<and>
   (IsAccountID fromID \<and> IsAccountID toID \<longrightarrow>
      snd (NewTx chainID nonce fromID toID val tip dat) = None \<and>
      ChainID (fst (NewTx chainID nonce fromID toID val tip dat)) = chainID \<and>
      Nonce (fst (NewTx chainID nonce fromID toID val tip dat)) = nonce \<and>
      FromID (fst (NewTx chainID nonce fromID toID val tip dat)) = fromID \<and>
      ToID (fst (NewTx chainID nonce fromID toID val tip dat)) = toID \<and>
      Value (fst (NewTx chainID nonce fromID toID val tip dat)) = val \<and>
      Tip (fst (NewTx chainID nonce fromID toID val tip dat)) = tip \<and>
      Data (fst (NewTx chainID nonce fromID toID val tip dat)) = dat) \<and>
   (IsAccountID fromID \<longrightarrow>
      NewTx chainID nonce fromID fromID val tip dat =
        (\<lparr>ChainID = chainID, Nonce = nonce, FromID = fromID, ToID = fromID,
          Value = val, Tip = tip, Data = dat\<rparr>, None))"
  by (simp add: NewTx_def)

theorem NewTx_spec_witness:
  "\<not> IsAccountID ''0x1234'' \<and>
   NewTx 1 0 ''0x1234'' addr_other 100 1 [] = (zero_Tx, Some FromNotFormatted) \<and>
   IsAccountID addr_lower \<and>
   NewTx 1 0 addr_lower ''0x1234'' 100 1 [] = (zero_Tx, Some ToNotFormatted) \<and>
   IsAccountID addr_other \<and>
   snd (NewTx 1 0 addr_lower addr_other 100 1 []) = None \<and>
   FromID (fst (NewTx 1 0 addr_lower addr_other 100 1 [])) = addr_lower \<and>
   ToID (fst (NewTx 1 0 addr_lower addr_other 100 1 [])) = addr_other \<and>
   Value (fst (NewTx 1 0 addr_lower addr_other 100 1 [])) = 100 \<and>
   snd (NewTx 1 0 addr_lower addr_lower 100 1 []) = None"
proof -
  note h1 = not_IsAccountID_short
  note h2 = IsAccountID_addr_lower
  note h3 = IsAccountID_addr_other
  from NewTx_spec [of "''0x1234''" 1 0 addr_other 100 1 "[]"] h1
  have c1: "NewTx 1 0 ''0x1234'' addr_other 100 1 [] = (zero_Tx, Some FromNotFormatted)"
    by simp
  from NewTx_spec [of addr_lower 1 0 "''0x1234''" 100 1 "[]"] h1 h2
  have c2: "NewTx 1 0 addr_lower ''0x1234'' 100 1 [] = (zero_Tx, Some ToNotFormatted)"
    by simp
  from NewTx_spec [of addr_lower 1 0 addr_other 100 1 "[]"] h2 h3
  have c3: "snd (NewTx 1 0 addr_lower addr_other 100 1 []) = None \<and>
   FromID (fst (NewTx 1 0 addr_lower addr_other 100 1 [])) = addr_lower \<and>
   ToID (fst (NewTx 1 0 addr_lower addr_other 100 1 [])) = addr_other \<and>
   Value (fst (NewTx 1 0 addr_lower addr_other 100 1 [])) = 100"
    by simp
  from NewTx_spec [of addr_lower 1 0 addr_other 100 1 "[]"] h2
  have c4: "snd (NewTx 1 0 addr_lower addr_lower 100 1 []) = None"
    by simp
  from h1 h2 h3 c1 c2 c3 c4 show ?thesis by simp
qed

text \<open>
  C7. \<^verbatim>\<open>Sign\<close> returns an error exactly when \<^verbatim>\<open>signature.Sign\<close> does, the same error, and
  then the zero \<^verbatim>\<open>SignedTx\<close>. When \<^verbatim>\<open>signature.Sign\<close> returns \<open>v\<close>, \<open>r\<close>, \<open>s\<close> and no error,
  \<^verbatim>\<open>Sign\<close> returns the \<^verbatim>\<open>SignedTx\<close> that embeds the transaction it was given, equal field
  for field, with \<open>V = v\<close>, \<open>R = r\<close> and \<open>S = s\<close>.
\<close>

theorem Sign_spec:
  "(snd (Sign sg tx key) \<noteq> None \<longleftrightarrow> snd (snd (snd (signature_Sign sg tx key))) \<noteq> None) \<and>
   snd (Sign sg tx key) = snd (snd (snd (signature_Sign sg tx key))) \<and>
   (snd (Sign sg tx key) \<noteq> None \<longrightarrow> fst (Sign sg tx key) = zero_SignedTx) \<and>
   (signature_Sign sg tx key = (v, r, s, None) \<longrightarrow>
      Sign sg tx key = (\<lparr>Tx = tx, V = v, R = r, S = s\<rparr>, None) \<and>
      Tx (fst (Sign sg tx key)) = tx \<and>
      ChainID (Tx (fst (Sign sg tx key))) = ChainID tx \<and>
      Nonce (Tx (fst (Sign sg tx key))) = Nonce tx \<and>
      FromID (Tx (fst (Sign sg tx key))) = FromID tx \<and>
      ToID (Tx (fst (Sign sg tx key))) = ToID tx \<and>
      Value (Tx (fst (Sign sg tx key))) = Value tx \<and>
      Tip (Tx (fst (Sign sg tx key))) = Tip tx \<and>
      Data (Tx (fst (Sign sg tx key))) = Data tx \<and>
      V (fst (Sign sg tx key)) = v \<and> R (fst (Sign sg tx key)) = r \<and>
      S (fst (Sign sg tx key)) = s)"
  by (auto simp: Sign_def split: prod.splits option.splits)

theorem Sign_spec_witness:
  "snd (Sign stub_signature sample_Tx 0) \<noteq> None \<and>
   fst (Sign stub_signature sample_Tx 0) = zero_SignedTx \<and>
   signature_Sign stub_signature sample_Tx 5 = (Some 29, Some 5, Some 1, None) \<and>
   Sign stub_signature sample_Tx 5 =
     (\<lparr>Tx = sample_Tx, V = Some 29, R = Some 5, S = Some 1\<rparr>, None)"
proof -
  have h1: "snd (snd (snd (signature_Sign stub_signature sample_Tx 0))) \<noteq> None"
    by (simp add: stub_signature_def)
  have h2: "signature_Sign stub_signature sample_Tx 5 = (Some 29, Some 5, Some 1, None)"
    by (simp add: stub_signature_def)
  from Sign_spec [of stub_signature sample_Tx 0 None None None] h1
  have c1: "snd (Sign stub_signature sample_Tx 0) \<noteq> None"
    by simp
  from Sign_spec [of stub_signature sample_Tx 0 None None None] c1
  have c2: "fst (Sign stub_signature sample_Tx 0) = zero_SignedTx"
    by simp
  from Sign_spec [of stub_signature sample_Tx 5 "Some 29" "Some 5" "Some 1"] h2
  have c3: "Sign stub_signature sample_Tx 5 =
     (\<lparr>Tx = sample_Tx, V = Some 29, R = Some 5, S = Some 1\<rparr>, None)"
    by simp
  from h2 c1 c2 c3 show ?thesis by simp
qed

subsection \<open>Validating a signed transaction\<close>

text \<open>
  C1. \<^verbatim>\<open>Validate\<close> makes its checks in this order and returns the error of the first one that
  fails: the chain id differs from the expected one; \<^verbatim>\<open>FromID\<close> is not accepted by
  \<^verbatim>\<open>IsAccountID\<close>; \<^verbatim>\<open>ToID\<close> is not accepted; \<^verbatim>\<open>FromID\<close> equals \<^verbatim>\<open>ToID\<close>;
  \<^verbatim>\<open>signature.VerifySignature\<close> rejects \<open>(V, R, S)\<close>; \<^verbatim>\<open>signature.FromAddress\<close> fails on the
  embedded \<^verbatim>\<open>Tx\<close> and \<open>(V, R, S)\<close>, or the address it recovers is not the string \<^verbatim>\<open>FromID\<close>.
  Each error is returned when the checks before it pass. \<^verbatim>\<open>Validate\<close> returns \<^verbatim>\<open>nil\<close> exactly
  when all the checks pass.
\<close>

theorem Validate_order:
  "(ChainID (Tx tx) \<noteq> chainID \<longrightarrow>
      Validate sg tx chainID = Some (InvalidChainID (ChainID (Tx tx)) chainID)) \<and>
   (ChainID (Tx tx) = chainID \<and> \<not> IsAccountID (FromID (Tx tx)) \<longrightarrow>
      Validate sg tx chainID = Some FromNotFormatted) \<and>
   (ChainID (Tx tx) = chainID \<and> IsAccountID (FromID (Tx tx)) \<and>
    \<not> IsAccountID (ToID (Tx tx)) \<longrightarrow>
      Validate sg tx chainID = Some ToNotFormatted) \<and>
   (ChainID (Tx tx) = chainID \<and> IsAccountID (FromID (Tx tx)) \<and> IsAccountID (ToID (Tx tx)) \<and>
    FromID (Tx tx) = ToID (Tx tx) \<longrightarrow>
      Validate sg tx chainID = Some (SelfTransfer (FromID (Tx tx)) (ToID (Tx tx)))) \<and>
   (ChainID (Tx tx) = chainID \<and> IsAccountID (FromID (Tx tx)) \<and> IsAccountID (ToID (Tx tx)) \<and>
    FromID (Tx tx) \<noteq> ToID (Tx tx) \<and>
    signature_VerifySignature sg (V tx) (R tx) (S tx) = Some e \<longrightarrow>
      Validate sg tx chainID = Some e) \<and>
   (ChainID (Tx tx) = chainID \<and> IsAccountID (FromID (Tx tx)) \<and> IsAccountID (ToID (Tx tx)) \<and>
    FromID (Tx tx) \<noteq> ToID (Tx tx) \<and>
    signature_VerifySignature sg (V tx) (R tx) (S tx) = None \<and>
    signature_FromAddress sg (Tx tx) (V tx) (R tx) (S tx) = (address, Some e) \<longrightarrow>
      Validate sg tx chainID = Some e) \<and>
   (ChainID (Tx tx) = chainID \<and> IsAccountID (FromID (Tx tx)) \<and> IsAccountID (ToID (Tx tx)) \<and>
    FromID (Tx tx) \<noteq> ToID (Tx tx) \<and>
    signature_VerifySignature sg (V tx) (R tx) (S tx) = None \<and>
    signature_FromAddress sg (Tx tx) (V tx) (R tx) (S tx) = (address, None) \<and>
    address \<noteq> FromID (Tx tx) \<longrightarrow>
      Validate sg tx chainID = Some AddressMismatch) \<and>
   (Validate sg tx chainID = None \<longleftrightarrow>
      ChainID (Tx tx) = chainID \<and> IsAccountID (FromID (Tx tx)) \<and> IsAccountID (ToID (Tx tx)) \<and>
      FromID (Tx tx) \<noteq> ToID (Tx tx) \<and>
      signature_VerifySignature sg (V tx) (R tx) (S tx) = None \<and>
      signature_FromAddress sg (Tx tx) (V tx) (R tx) (S tx) = (FromID (Tx tx), None))"
proof (intro conjI impI)
  show "Validate sg tx chainID = None \<longleftrightarrow>
      ChainID (Tx tx) = chainID \<and> IsAccountID (FromID (Tx tx)) \<and> IsAccountID (ToID (Tx tx)) \<and>
      FromID (Tx tx) \<noteq> ToID (Tx tx) \<and>
      signature_VerifySignature sg (V tx) (R tx) (S tx) = None \<and>
      signature_FromAddress sg (Tx tx) (V tx) (R tx) (S tx) = (FromID (Tx tx), None)"
    by (auto simp: Validate_def split: option.splits prod.splits)
qed (simp_all add: Validate_def)

theorem Validate_order_witness:
  "ChainID (Tx sample_SignedTx) \<noteq> 2 \<and>
   Validate stub_signature sample_SignedTx 2 = Some (InvalidChainID 1 2) \<and>
   \<not> IsAccountID ''0x1234'' \<and>
   Validate stub_signature (sample_SignedTx\<lparr>Tx := sample_Tx\<lparr>FromID := ''0x1234''\<rparr>\<rparr>) 1 =
     Some FromNotFormatted \<and>
   Validate stub_signature (sample_SignedTx\<lparr>Tx := sample_Tx\<lparr>ToID := ''0x1234''\<rparr>\<rparr>) 1 =
     Some ToNotFormatted \<and>
   Validate stub_signature (sample_SignedTx\<lparr>Tx := sample_Tx\<lparr>ToID := addr_lower\<rparr>\<rparr>) 1 =
     Some (SelfTransfer addr_lower addr_lower) \<and>
   Validate stub_signature (sample_SignedTx\<lparr>V := Some 27\<rparr>) 1 =
     Some (SignatureError ''invalid recovery id'') \<and>
   Validate stub_signature (sample_SignedTx\<lparr>R := None\<rparr>) 1 =
     Some (SignatureError ''recovery failed'') \<and>
   Validate stub_signature (sample_SignedTx\<lparr>R := Some 2\<rparr>) 1 = Some AddressMismatch \<and>
   Validate stub_signature sample_SignedTx 1 = None"
proof -
  have h1: "ChainID (Tx sample_SignedTx) \<noteq> 2"
    by (simp add: sample_simps)
  from Validate_order [where tx = sample_SignedTx and chainID = 2 and sg = stub_signature
      and e = AddressMismatch and address = "[]"] h1
  have c1: "Validate stub_signature sample_SignedTx 2 = Some (InvalidChainID 1 2)"
    by (simp add: sample_simps)
  from Validate_order [where tx = "sample_SignedTx\<lparr>Tx := sample_Tx\<lparr>FromID := ''0x1234''\<rparr>\<rparr>"
      and chainID = 1 and sg = stub_signature and e = AddressMismatch and address = "[]"]
  have c2: "Validate stub_signature (sample_SignedTx\<lparr>Tx := sample_Tx\<lparr>FromID := ''0x1234''\<rparr>\<rparr>) 1 =
     Some FromNotFormatted"
    by (simp add: sample_simps)
  from Validate_order [where tx = "sample_SignedTx\<lparr>Tx := sample_Tx\<lparr>ToID := ''0x1234''\<rparr>\<rparr>"
      and chainID = 1 and sg = stub_signature and e = AddressMismatch and address = "[]"]
  have c3: "Validate stub_signature (sample_SignedTx\<lparr>Tx := sample_Tx\<lparr>ToID := ''0x1234''\<rparr>\<rparr>) 1 =
     Some ToNotFormatted"
    by (simp add: sample_simps)
  from Validate_order [where tx = "sample_SignedTx\<lparr>Tx := sample_Tx\<lparr>ToID := addr_lower\<rparr>\<rparr>"
      and chainID = 1 and sg = stub_signature and e = AddressMismatch and address = "[]"]
  have c4: "Validate stub_signature (sample_SignedTx\<lparr>Tx := sample_Tx\<lparr>ToID := addr_lower\<rparr>\<rparr>) 1 =
     Some (SelfTransfer addr_lower addr_lower)"
    by (simp add: sample_simps)
  from Validate_order [where tx = "sample_SignedTx\<lparr>V := Some 27\<rparr>"
      and chainID = 1 and sg = stub_signature
      and e = "SignatureError ''invalid recovery id''" and address = "[]"]
  have c5: "Validate stub_signature (sample_SignedTx\<lparr>V := Some 27\<rparr>) 1 =
     Some (SignatureError ''invalid recovery id'')"
    by (simp add: sample_simps)
  from Validate_order [where tx = "sample_SignedTx\<lparr>R := None\<rparr>"
      and chainID = 1 and sg = stub_signature
      and e = "SignatureError ''recovery failed''" and address = "[]"]
  have c6: "Validate stub_signature (sample_SignedTx\<lparr>R := None\<rparr>) 1 =
     Some (SignatureError ''recovery failed'')"
    by (simp add: sample_simps)
  from Validate_order [where tx = "sample_SignedTx\<lparr>R := Some 2\<rparr>"
      and chainID = 1 and sg = stub_signature and e = AddressMismatch and address = addr_upper]
  have c7: "Validate stub_signature (sample_SignedTx\<lparr>R := Some 2\<rparr>) 1 = Some AddressMismatch"
    by (simp add: sample_simps)
  from Validate_order [where tx = sample_SignedTx
      and chainID = 1 and sg = stub_signature and e = AddressMismatch and address = addr_upper]
  have c8: "Validate stub_signature sample_SignedTx 1 = None"
    by (simp add: sample_simps)
  from h1 not_IsAccountID_short c1 c2 c3 c4 c5 c6 c7 c8 show ?thesis
    by simp
qed

text \<open>
  C5. A transaction whose \<^verbatim>\<open>FromID\<close> equals its \<^verbatim>\<open>ToID\<close> is never accepted: \<^verbatim>\<open>Validate\<close>
  returns an error on every \<^verbatim>\<open>SignedTx\<close> that carries it, whatever the signature and the
  expected chain id. When the chain id matches and both identifiers are well formed, that
  error is the one of a transfer to oneself. So for equal \<open>fromID\<close> and \<open>toID\<close>, either \<^verbatim>\<open>NewTx\<close>
  fails or \<^verbatim>\<open>Validate\<close> fails on the transaction that \<^verbatim>\<open>NewTx\<close> made.
\<close>

theorem self_transfer_rejected:
  "(FromID (Tx tx) = ToID (Tx tx) \<longrightarrow> Validate sg tx chainID \<noteq> None) \<and>
   (ChainID (Tx tx) = chainID \<and> IsAccountID (FromID (Tx tx)) \<and> IsAccountID (ToID (Tx tx)) \<and>
    FromID (Tx tx) = ToID (Tx tx) \<longrightarrow>
      Validate sg tx chainID = Some (SelfTransfer (FromID (Tx tx)) (ToID (Tx tx)))) \<and>
   (fromID = toID \<longrightarrow>
      snd (NewTx c n fromID toID val tip dat) \<noteq> None \<or>
      Validate sg \<lparr>Tx = fst (NewTx c n fromID toID val tip dat), V = v, R = r, S = s\<rparr> chainID
        \<noteq> None)"
  by (simp add: Validate_def NewTx_def)

theorem self_transfer_rejected_witness:
  "FromID (Tx (sample_SignedTx\<lparr>Tx := sample_Tx\<lparr>ToID := addr_lower\<rparr>\<rparr>)) =
     ToID (Tx (sample_SignedTx\<lparr>Tx := sample_Tx\<lparr>ToID := addr_lower\<rparr>\<rparr>)) \<and>
   Validate stub_signature (sample_SignedTx\<lparr>Tx := sample_Tx\<lparr>ToID := addr_lower\<rparr>\<rparr>) 2 \<noteq> None \<and>
   Validate stub_signature (sample_SignedTx\<lparr>Tx := sample_Tx\<lparr>ToID := addr_lower\<rparr>\<rparr>) 1 =
     Some (SelfTransfer addr_lower addr_lower) \<and>
   snd (NewTx 1 0 addr_lower addr_lower 100 1 []) = None \<and>
   Validate stub_signature
     \<lparr>Tx = fst (NewTx 1 0 addr_lower addr_lower 100 1 []), V = Some 29, R = Some 1, S = Some 1\<rparr> 1
     \<noteq> None"
proof -
  have h1: "FromID (Tx (sample_SignedTx\<lparr>Tx := sample_Tx\<lparr>ToID := addr_lower\<rparr>\<rparr>)) =
     ToID (Tx (sample_SignedTx\<lparr>Tx := sample_Tx\<lparr>ToID := addr_lower\<rparr>\<rparr>))"
    by (simp add: sample_simps)
  have h2: "snd (NewTx 1 0 addr_lower addr_lower 100 1 []) = None"
    by (simp add: NewTx_def IsAccountID_addr_lower)
  from self_transfer_rejected [where tx = "sample_SignedTx\<lparr>Tx := sample_Tx\<lparr>ToID := addr_lower\<rparr>\<rparr>"
      and chainID = 2 and sg = stub_signature and fromID = addr_lower and toID = addr_lower
      and c = 1 and n = 0 and val = 100 and tip = 1 and dat = "[]" and v = "Some 29"
      and r = "Some 1" and s = "Some 1"] h1
  have c1: "Validate stub_signature (sample_SignedTx\<lparr>Tx := sample_Tx\<lparr>ToID := addr_lower\<rparr>\<rparr>) 2 \<noteq> None"
    by simp
  from self_transfer_rejected [where tx = "sample_SignedTx\<lparr>Tx := sample_Tx\<lparr>ToID := addr_lower\<rparr>\<rparr>"
      and chainID = 1 and sg = stub_signature and fromID = addr_lower and toID = addr_lower
      and c = 1 and n = 0 and val = 100 and tip = 1 and dat = "[]" and v = "Some 29"
      and r = "Some 1" and s = "Some 1"] h2
  have c2: "Validate stub_signature (sample_SignedTx\<lparr>Tx := sample_Tx\<lparr>ToID := addr_lower\<rparr>\<rparr>) 1 =
     Some (SelfTransfer addr_lower addr_lower) \<and>
   Validate stub_signature
     \<lparr>Tx = fst (NewTx 1 0 addr_lower addr_lower 100 1 []), V = Some 29, R = Some 1, S = Some 1\<rparr> 1
     \<noteq> None"
    by (simp add: sample_simps)
  from h1 h2 c1 c2 show ?thesis by simp
qed

subsection \<open>No normalisation of identifiers\<close>

text \<open>
  C10. \<^verbatim>\<open>ToAccountID\<close> returns its input unchanged when it succeeds, so two different
  accepted strings stay different identifiers: the address \<^verbatim>\<open>aa...a\<close> written with \<^verbatim>\<open>0x\<close>
  and lower-case digits, with \<^verbatim>\<open>0x\<close> and upper-case digits, and with no prefix gives three
  identifiers. The last check of \<^verbatim>\<open>Validate\<close> compares the recovered address with \<^verbatim>\<open>FromID\<close>
  as strings: once the earlier checks pass and an address is recovered, \<^verbatim>\<open>Validate\<close>
  succeeds exactly when the two strings are equal, and returns the mismatch error when they
  differ in any character.
\<close>

theorem no_normalization:
  "(snd (ToAccountID s) = None \<longrightarrow> fst (ToAccountID s) = s) \<and>
   (snd (ToAccountID s) = None \<and> snd (ToAccountID t) = None \<and> s \<noteq> t \<longrightarrow>
      fst (ToAccountID s) \<noteq> fst (ToAccountID t)) \<and>
   ToAccountID addr_lower = (addr_lower, None) \<and> ToAccountID addr_upper = (addr_upper, None) \<and>
   ToAccountID addr_bare = (addr_bare, None) \<and>
   addr_lower \<noteq> addr_upper \<and> addr_lower \<noteq> addr_bare \<and> addr_upper \<noteq> addr_bare \<and>
   (ChainID (Tx tx) = chainID \<and> IsAccountID (FromID (Tx tx)) \<and> IsAccountID (ToID (Tx tx)) \<and>
    FromID (Tx tx) \<noteq> ToID (Tx tx) \<and>
    signature_VerifySignature sg (V tx) (R tx) (S tx) = None \<and>
    signature_FromAddress sg (Tx tx) (V tx) (R tx) (S tx) = (address, None) \<longrightarrow>
      (Validate sg tx chainID = None \<longleftrightarrow> address = FromID (Tx tx)) \<and>
      (address \<noteq> FromID (Tx tx) \<longrightarrow> Validate sg tx chainID = Some AddressMismatch))"
proof -
  have 1: "snd (ToAccountID s) = None \<longrightarrow> fst (ToAccountID s) = s" for s
    by (simp add: ToAccountID_def)
  have 2: "snd (ToAccountID s) = None \<and> snd (ToAccountID t) = None \<and> s \<noteq> t \<longrightarrow>
      fst (ToAccountID s) \<noteq> fst (ToAccountID t)"
    using 1 [of s] 1 [of t] by simp
  have 3: "ToAccountID addr_lower = (addr_lower, None)" "ToAccountID addr_upper = (addr_upper, None)"
    "ToAccountID addr_bare = (addr_bare, None)"
    by (simp_all add: ToAccountID_accept IsAccountID_addr_lower IsAccountID_addr_upper
        IsAccountID_addr_bare)
  have 4: "ChainID (Tx tx) = chainID \<and> IsAccountID (FromID (Tx tx)) \<and> IsAccountID (ToID (Tx tx)) \<and>
    FromID (Tx tx) \<noteq> ToID (Tx tx) \<and>
    signature_VerifySignature sg (V tx) (R tx) (S tx) = None \<and>
    signature_FromAddress sg (Tx tx) (V tx) (R tx) (S tx) = (address, None) \<longrightarrow>
      (Validate sg tx chainID = None \<longleftrightarrow> address = FromID (Tx tx)) \<and>
      (address \<noteq> FromID (Tx tx) \<longrightarrow> Validate sg tx chainID = Some AddressMismatch)"
    by (simp add: Validate_def)
  from 1 [of s] 2 3 4 addr_distinct(1,2,3) show ?thesis
    by simp
qed

theorem no_normalization_witness:
  "snd (ToAccountID addr_upper) = None \<and> fst (ToAccountID addr_upper) = addr_upper \<and>
   snd (ToAccountID addr_lower) = None \<and> addr_upper \<noteq> addr_lower \<and>
   fst (ToAccountID addr_upper) \<noteq> fst (ToAccountID addr_lower) \<and>
   FromID (Tx (sample_SignedTx\<lparr>R := Some 2\<rparr>)) = addr_lower \<and>
   signature_FromAddress stub_signature sample_Tx (Some 29) (Some 2) (Some 1) = (addr_upper, None) \<and>
   Validate stub_signature (sample_SignedTx\<lparr>R := Some 2\<rparr>) 1 = Some AddressMismatch \<and>
   signature_FromAddress stub_signature sample_Tx (Some 29) (Some 1) (Some 1) = (addr_lower, None) \<and>
   Validate stub_signature sample_SignedTx 1 = None"
proof -
  have h1: "snd (ToAccountID addr_upper) = None" "snd (ToAccountID addr_lower) = None"
    by (simp_all add: ToAccountID_def IsAccountID_addr_upper IsAccountID_addr_lower)
  have h2: "addr_upper \<noteq> addr_lower"
    using addr_distinct(1) by simp
  have h3: "signature_FromAddress stub_signature sample_Tx (Some 29) (Some 2) (Some 1) =
      (addr_upper, None)"
    "signature_FromAddress stub_signature sample_Tx (Some 29) (Some 1) (Some 1) =
      (addr_lower, None)"
    by (simp_all add: stub_simps)
  from h1 h2 no_normalization [where s = addr_upper and t = addr_lower
      and tx = "sample_SignedTx\<lparr>R := Some 2\<rparr>" and chainID = 1 and sg = stub_signature
      and address = addr_upper]
  have c1: "fst (ToAccountID addr_upper) = addr_upper \<and>
      fst (ToAccountID addr_upper) \<noteq> fst (ToAccountID addr_lower)"
    by simp
  from no_normalization [where s = addr_upper and t = addr_lower
      and tx = "sample_SignedTx\<lparr>R := Some 2\<rparr>" and chainID = 1 and sg = stub_signature
      and address = addr_upper] h3
  have c2: "Validate stub_signature (sample_SignedTx\<lparr>R := Some 2\<rparr>) 1 = Some AddressMismatch"
    by (simp add: sample_simps)
  from no_normalization [where s = addr_upper and t = addr_lower
      and tx = sample_SignedTx and chainID = 1 and sg = stub_signature
      and address = addr_lower] h3
  have c3: "Validate stub_signature sample_SignedTx 1 = None"
    by (simp add: sample_simps)
  have h4: "FromID (Tx (sample_SignedTx\<lparr>R := Some 2\<rparr>)) = addr_lower"
    by (simp add: sample_simps)
  from h1 h2 h3 h4 c1 c2 c3 show ?thesis by blast
qed

end
